theory Spec2Isabelle
  imports Complex_Main
begin

section \<open>The checkpoint directory\<close>

text \<open>
  Tensors are flat lists of reals: the arithmetic of the tensor library is idealised as
  exact real arithmetic throughout. A checkpoint file carries its name, the creation time
  that \<open>os.path.getctime\<close> reports, the serialised weights and the metadata written
  beside them.

  Modelled from the spec: \<open>toolkit.metadata\<close> (\<open>get_meta_for_safetensors\<close>,
  \<open>load_metadata_from_safetensors\<close>) is not part of the sources; a checkpoint's
  metadata mapping is read back as it was written, and of it only
  \<open>training_info.step\<close> and \<open>training_info.epoch\<close> are kept.
\<close>

type_synonym tensor = "real list"

record ckpt_file =
  fname :: string
  ctime :: int
  payload :: tensor
  meta_step :: "int option"
  meta_epoch :: "int option"
  saved_multiplier :: "real option"

text \<open>
  The directory \<open>save_root\<close>: whether it exists, its files in the order the
  listing returns them, and the clock that stamps the next write.
\<close>

record disk =
  root_exists :: bool
  entries :: "ckpt_file list"
  clock :: int

definition makedirs :: "disk \<Rightarrow> disk" where
  "makedirs d = (if root_exists d then d else d\<lparr>root_exists := True\<rparr>)"

definition write_file :: "ckpt_file \<Rightarrow> disk \<Rightarrow> disk" where
  "write_file f d =
     d\<lparr>entries := filter (\<lambda>g. fname g \<noteq> fname f) (entries d) @ [f\<lparr>ctime := clock d\<rparr>],
       clock := clock d + 1\<rparr>"

definition os_remove :: "disk \<Rightarrow> string \<Rightarrow> disk" where
  "os_remove d name = d\<lparr>entries := filter (\<lambda>g. fname g \<noteq> name) (entries d)\<rparr>"

text \<open>
  The two glob patterns of the sources have the shape \<open>prefix*suffix\<close>; the job
  name is taken literally (no glob metacharacter in it).
\<close>

definition glob_match :: "string \<Rightarrow> string \<Rightarrow> string \<Rightarrow> bool" where
  "glob_match pre suf name =
     (length pre + length suf \<le> length name
      \<and> take (length pre) name = pre
      \<and> drop (length name - length suf) name = suf)"

definition glob_files :: "string \<Rightarrow> string \<Rightarrow> disk \<Rightarrow> ckpt_file list" where
  "glob_files pre suf d = filter (\<lambda>f. glob_match pre suf (fname f)) (entries d)"

text \<open>Python's \<open>max(files, key=...)\<close>: the first of the maximal elements.\<close>

fun py_max_by :: "('a \<Rightarrow> int) \<Rightarrow> 'a list \<Rightarrow> 'a option" where
  "py_max_by key [] = None"
| "py_max_by key (x # xs) =
     Some (foldl (\<lambda>m y. if key m < key y then y else m) x xs)"

text \<open>Python's slice \<open>xs[:j]\<close>, a negative \<open>j\<close> counting from the end.\<close>

definition py_slice_to :: "'a list \<Rightarrow> int \<Rightarrow> 'a list" where
  "py_slice_to xs j =
     (if j < 0 then take (nat (int (length xs) + j)) xs else take (nat j) xs)"

subsection \<open>Step suffixes\<close>

fun digits :: "nat \<Rightarrow> string" where
  "digits n =
     (if n < 10 then [''0123456789'' ! n]
      else digits (n div 10) @ [''0123456789'' ! (n mod 10)])"

declare digits.simps [simp del]

definition str :: "int \<Rightarrow> string" where
  "str i = (if i < 0 then CHR ''-'' # digits (nat (- i)) else digits (nat i))"

definition zfill :: "nat \<Rightarrow> string \<Rightarrow> string" where
  "zfill w s =
     (case s of
        [] \<Rightarrow> replicate w (CHR ''0'')
      | c # r \<Rightarrow>
          if c = CHR ''-'' \<or> c = CHR ''+''
          then c # replicate (w - length s) (CHR ''0'') @ r
          else replicate (w - length s) (CHR ''0'') @ s)"

definition step_suffix :: "int option \<Rightarrow> string" where
  "step_suffix step =
     (case step of None \<Rightarrow> [] | Some s \<Rightarrow> ''_'' @ zfill 9 (str s))"

section \<open>The periodic predicate\<close>

text \<open>
  Both loops guard each periodic action by
  \<open>interval and step_num % interval == 0\<close> under \<open>step_num != start_step\<close>.
  An interval is an integer or \<open>None\<close>; \<open>and\<close> short-circuits on a falsy one, so
  the remainder is never taken by zero.
\<close>

definition interval_due :: "int option \<Rightarrow> int \<Rightarrow> bool" where
  "interval_due interval step =
     (case interval of None \<Rightarrow> False | Some n \<Rightarrow> n \<noteq> 0 \<and> step mod n = 0)"

text \<open>The predicate as the specification words it.\<close>

definition should_fire :: "int \<Rightarrow> int \<Rightarrow> int option \<Rightarrow> bool" where
  "should_fire s start interval =
     (interval \<noteq> None \<and> interval \<noteq> Some 0 \<and> s \<noteq> start \<and> s mod the interval = 0)"

section \<open>Observable actions\<close>

datatype event =
    ModelLoaded
  | Trained int
  | Sampled "int option" bool
  | Saved "int option"
  | Scalar string real int
  | Released

section \<open>The diffusion trainer\<close>

record network =
  multiplier :: real
  weights :: tensor

text \<open>
  \<open>network_config\<close> holds the freshly initialised adapter weights when an adapter is
  configured and is \<open>None\<close> otherwise. \<open>loss_at\<close> stands for the loss dictionary
  that the training hook returns at a loop index.
\<close>

record sd_process =
  job_name :: string
  step_num :: int
  start_step :: int
  network_config :: "tensor option"
  network :: "network option"
  sd_weights :: tensor
  steps :: int
  sample_every :: "int option"
  save_every :: "int option"
  log_every :: "int option"
  max_step_saves_to_keep :: int
  has_first_sample_requested :: bool
  skip_first_sample :: bool
  has_writer :: bool
  loss_at :: "int \<Rightarrow> (string \<times> real) list"
  learning_rate :: real
  meta :: "int option"
  sd_disk :: disk
  events :: "event list"

definition emit :: "event list \<Rightarrow> sd_process \<Rightarrow> sd_process" where
  "emit es p = p\<lparr>events := events p @ es\<rparr>"

definition sd_sample :: "int option \<Rightarrow> bool \<Rightarrow> sd_process \<Rightarrow> sd_process" where
  "sd_sample step is_first p = emit [Sampled step is_first] p"

definition sd_get_training_info :: "sd_process \<Rightarrow> int" where
  "sd_get_training_info p = step_num p + 1"

definition sd_update_training_metadata :: "sd_process \<Rightarrow> sd_process" where
  "sd_update_training_metadata p = p\<lparr>meta := Some (sd_get_training_info p)\<rparr>"

definition sd_intermediates :: "string \<Rightarrow> disk \<Rightarrow> ckpt_file list" where
  "sd_intermediates job d = glob_files (job @ ''_'') ''.safetensors'' d"

definition clean_up_saves :: "sd_process \<Rightarrow> sd_process" where
  "clean_up_saves p =
     (if root_exists (sd_disk p) then
        (let files = sd_intermediates (job_name p) (sd_disk p) in
         if max_step_saves_to_keep p < int (length files) then
           (let sorted = sort_key ctime files;
                doomed = py_slice_to sorted (- max_step_saves_to_keep p)
            in p\<lparr>sd_disk := foldl os_remove (sd_disk p) (map fname doomed)\<rparr>)
         else p)
      else p)"

text \<open>The files that \<open>clean_up_saves\<close> removes when it prunes.\<close>

definition pruned :: "string \<Rightarrow> int \<Rightarrow> disk \<Rightarrow> ckpt_file list" where
  "pruned job keep d = py_slice_to (sort_key ctime (sd_intermediates job d)) (- keep)"

text \<open>
  \<open>save\<close> up to its call of \<open>clean_up_saves\<close>. With an adapter the multiplier is
  set to 1, the weights are serialised, and the previous multiplier is put back.
\<close>

definition sd_write :: "int option \<Rightarrow> sd_process \<Rightarrow> sd_process" where
  "sd_write step p =
     (let p1 = p\<lparr>sd_disk := makedirs (sd_disk p)\<rparr>;
          p2 = sd_update_training_metadata p1;
          filename = job_name p2 @ step_suffix step @ ''.safetensors''
      in case network p2 of
           Some n \<Rightarrow>
             (let prev_multiplier = multiplier n;
                  n1 = n\<lparr>multiplier := 1\<rparr>;
                  f = \<lparr>fname = filename, ctime = 0, payload = weights n1,
                       meta_step = meta p2, meta_epoch = None,
                       saved_multiplier = Some (multiplier n1)\<rparr>;
                  p3 = p2\<lparr>network := Some n1, sd_disk := write_file f (sd_disk p2)\<rparr>
              in p3\<lparr>network := Some (n1\<lparr>multiplier := prev_multiplier\<rparr>)\<rparr>)
         | None \<Rightarrow>
             (let f = \<lparr>fname = filename, ctime = 0, payload = sd_weights p2,
                       meta_step = meta p2, meta_epoch = None,
                       saved_multiplier = None\<rparr>
              in p2\<lparr>sd_disk := write_file f (sd_disk p2)\<rparr>))"

text \<open>The file that \<open>save\<close> leaves in the directory.\<close>

definition written :: "int option \<Rightarrow> sd_process \<Rightarrow> ckpt_file" where
  "written step p =
     \<lparr>fname = job_name p @ step_suffix step @ ''.safetensors'',
      ctime = clock (sd_disk p),
      payload = (case network p of Some n \<Rightarrow> weights n | None \<Rightarrow> sd_weights p),
      meta_step = Some (step_num p + 1),
      meta_epoch = None,
      saved_multiplier = (case network p of Some n \<Rightarrow> Some 1 | None \<Rightarrow> None)\<rparr>"


definition sd_save :: "int option \<Rightarrow> sd_process \<Rightarrow> sd_process" where
  "sd_save step p = clean_up_saves (emit [Saved step] (sd_write step p))"

definition get_latest_save_path :: "sd_process \<Rightarrow> ckpt_file option" where
  "get_latest_save_path p =
     (if root_exists (sd_disk p)
      then py_max_by ctime (glob_files (job_name p) ''.safetensors'' (sd_disk p))
      else None)"

definition load_weights :: "ckpt_file \<Rightarrow> sd_process \<Rightarrow> sd_process" where
  "load_weights f p =
     (case network p of
        Some n \<Rightarrow>
          (let p1 = p\<lparr>network := Some (n\<lparr>weights := payload f\<rparr>)\<rparr>
           in case meta_step f of
                Some s \<Rightarrow> p1\<lparr>step_num := s, start_step := s\<rparr>
              | None \<Rightarrow> p1)
      | None \<Rightarrow> p)"

text \<open>The adapter branch of \<open>run\<close>: create the adapter, then resume if a save exists.\<close>

definition sd_setup_network :: "sd_process \<Rightarrow> sd_process" where
  "sd_setup_network p =
     (case network_config p of
        Some w \<Rightarrow>
          (let p1 = p\<lparr>network := Some \<lparr>multiplier = 1, weights = w\<rparr>\<rparr>
           in case get_latest_save_path p1 of
                Some f \<Rightarrow>
                  (let p2 = load_weights f p1
                   in p2\<lparr>network := map_option (\<lambda>n. n\<lparr>multiplier := 1\<rparr>) (network p2)\<rparr>)
              | None \<Rightarrow> p1)
      | None \<Rightarrow> p)"

text \<open>The block of the loop body under \<open>if self.step_num != self.start_step\<close>.\<close>

definition sd_periodic :: "int \<Rightarrow> sd_process \<Rightarrow> sd_process" where
  "sd_periodic step p =
     (if step_num p \<noteq> start_step p then
        (let p1 = (if interval_due (sample_every p) (step_num p)
                   then sd_sample (Some (step_num p)) False p else p);
             p2 = (if interval_due (save_every p1) (step_num p1)
                   then sd_save (Some (step_num p1)) p1 else p1);
             p3 = (if interval_due (log_every p2) (step_num p2)
                   then (if has_writer p2
                         then emit (map (\<lambda>(k, v). Scalar k v (step_num p2)) (loss_at p2 step)
                                    @ [Scalar ''lr'' (learning_rate p2) (step_num p2)]) p2
                         else p2)
                   else p2)
         in p3)
      else p)"

definition sd_loop_body :: "sd_process \<Rightarrow> int \<Rightarrow> sd_process" where
  "sd_loop_body p step = (sd_periodic step (emit [Trained step] p))\<lparr>step_num := step\<rparr>"

definition sd_train_loop :: "sd_process \<Rightarrow> sd_process" where
  "sd_train_loop p = foldl sd_loop_body p [step_num p .. steps p - 1]"

definition sd_finish :: "sd_process \<Rightarrow> sd_process" where
  "sd_finish p =
     (let p1 = sd_sample (Some (step_num p + 1)) False p;
          p2 = sd_save None p1
      in (emit [Released] p2)\<lparr>network := None\<rparr>)"

text \<open>\<open>run\<close> up to the loop: the model, the adapter and a resume, the first samples.\<close>

definition sd_prepare :: "sd_process \<Rightarrow> sd_process" where
  "sd_prepare p =
     (let p1 = emit [ModelLoaded] p;
          p2 = sd_setup_network p1;
          p3 = (if has_first_sample_requested p2 then sd_sample (Some 0) True p2 else p2);
          p4 = (if skip_first_sample p3 then p3 else sd_sample (Some 0) False p3)
      in p4)"

definition sd_run :: "sd_process \<Rightarrow> sd_process" where
  "sd_run p = sd_finish (sd_train_loop (sd_prepare p))"

text \<open>
  A trace ends with a sample pass followed by the unsuffixed save, the release of the
  resources aside.
\<close>

definition final_sample_then_save :: "event list \<Rightarrow> bool" where
  "final_sample_then_save tr =
     (case rev (filter (\<lambda>e. e \<noteq> Released) tr) of
        Saved None # Sampled s b # rest \<Rightarrow> True
      | _ \<Rightarrow> False)"

subsection \<open>A job with two intermediate saves and a final one\<close>

definition old_file :: "string \<Rightarrow> int \<Rightarrow> ckpt_file" where
  "old_file name t =
     \<lparr>fname = name, ctime = t, payload = [], meta_step = None, meta_epoch = None,
      saved_multiplier = None\<rparr>"

definition sd_example :: sd_process where
  "sd_example =
     \<lparr>job_name = ''job'', step_num = 300, start_step = 0,
      network_config = Some [0], network = Some \<lparr>multiplier = 1 / 2, weights = [1, 2]\<rparr>,
      sd_weights = [], steps = 400,
      sample_every = Some 100, save_every = Some 100, log_every = Some 100,
      max_step_saves_to_keep = 1,
      has_first_sample_requested = False, skip_first_sample = False, has_writer = True,
      loss_at = (\<lambda>i. [(''loss'', 1)]), learning_rate = 1,
      meta = None,
      sd_disk = \<lparr>root_exists = True,
                 entries = [old_file ''job_000000100.safetensors'' 1,
                            old_file ''job_000000200.safetensors'' 2,
                            old_file ''job.safetensors'' 3],
                 clock = 10\<rparr>,
      events = []\<rparr>"

text \<open>A fresh job of ten steps that saves every five, over an empty directory.\<close>

definition sd_ten_steps :: sd_process where
  "sd_ten_steps =
     sd_example\<lparr>step_num := 0, steps := 10, save_every := Some 5, sample_every := None,
                log_every := None, max_step_saves_to_keep := 5, network := None,
                sd_disk := \<lparr>root_exists = False, entries = [], clock = 0\<rparr>\<rparr>"


section \<open>Errors\<close>

datatype error = ValueError string | TypeError | ZeroDivisionError | RuntimeError

definition bind_err :: "error + 'a \<Rightarrow> ('a \<Rightarrow> error + 'b) \<Rightarrow> error + 'b" where
  "bind_err m f = (case m of Inl e \<Rightarrow> Inl e | Inr x \<Rightarrow> f x)"

section \<open>The adversarial critic\<close>

text \<open>
  The critic network, the gradient penalty, automatic differentiation and the optimiser
  are external: \<open>forward\<close> scores one row of features under the current parameters,
  \<open>gradient_penalty\<close> is \<open>get_gradient_penalty\<close>, \<open>loss_gradient\<close> is what
  \<open>backward\<close> adds to the parameters' gradient for a loss on a batch, and
  \<open>optimizer_update\<close> is the optimiser's rule for parameters that have a gradient.
  \<open>grad\<close> is \<open>None\<close> after \<open>zero_grad\<close>, and the optimiser skips parameters
  whose gradient is \<open>None\<close> (the library's default; older versions zero the gradient
  instead, and the step is then taken on a zero gradient).
\<close>

record critic =
  params :: tensor
  grad :: "tensor option"
  train_mode :: bool
  requires_grad :: bool
  scheduler_steps :: nat
  num_critic_per_gen :: int
  lambda_gp :: real
  critic_start_step :: int
  warmup_steps :: int
  forward :: "tensor \<Rightarrow> tensor \<Rightarrow> real"
  gradient_penalty :: "tensor \<Rightarrow> tensor list \<Rightarrow> tensor list \<Rightarrow> real"
  loss_gradient :: "tensor \<Rightarrow> tensor list \<Rightarrow> tensor"
  optimizer_update :: "tensor \<Rightarrow> tensor \<Rightarrow> tensor"

text \<open>
  \<open>a, b = torch.chunk(x, 2, dim=0)\<close>: the first chunk has half the rows, rounded up;
  fewer than two rows give a single chunk and the unpacking raises.
\<close>

definition chunk2 :: "'a list \<Rightarrow> error + ('a list \<times> 'a list)" where
  "chunk2 xs =
     (if length xs < 2 then Inl (ValueError ''not enough values to unpack'')
      else Inr (take ((length xs + 1) div 2) xs, drop ((length xs + 1) div 2) xs))"

definition mean :: "real list \<Rightarrow> real" where
  "mean xs = sum_list xs / real (length xs)"

text \<open>\<open>np.mean\<close> of a list; \<open>None\<close> stands for the NaN it returns on an empty one.\<close>

definition np_mean :: "real list \<Rightarrow> real option" where
  "np_mean xs = (if xs = [] then None else Some (mean xs))"

definition zero_grad :: "critic \<Rightarrow> critic" where
  "zero_grad c = c\<lparr>grad := None\<rparr>"

definition backward :: "tensor list \<Rightarrow> critic \<Rightarrow> critic" where
  "backward inputs c =
     (let g = loss_gradient c (params c) inputs
      in c\<lparr>grad := Some (case grad c of None \<Rightarrow> g | Some g0 \<Rightarrow> map2 (+) g0 g)\<rparr>)"

definition optimizer_step :: "critic \<Rightarrow> critic" where
  "optimizer_step c =
     (case grad c of None \<Rightarrow> c | Some g \<Rightarrow> c\<lparr>params := optimizer_update c (params c) g\<rparr>)"

definition scheduler_step :: "critic \<Rightarrow> critic" where
  "scheduler_step c = c\<lparr>scheduler_steps := Suc (scheduler_steps c)\<rparr>"

text \<open>The WGAN-GP loss of one inner iteration, as \<open>Critic.step\<close> computes it.\<close>

definition critic_loss :: "critic \<Rightarrow> tensor list \<Rightarrow> error + real" where
  "critic_loss c inputs =
     bind_err (chunk2 inputs) (\<lambda>(vgg_pred, vgg_target).
     bind_err (chunk2 (map (forward c (params c)) inputs)) (\<lambda>(out_pred, out_target).
       Inr (- (mean out_target - mean out_pred)
            + lambda_gp c * gradient_penalty c (params c) vgg_target vgg_pred)))"

text \<open>One pass of the body of the \<open>for\<close> loop of \<open>Critic.step\<close>.\<close>

definition critic_iteration :: "tensor list \<Rightarrow> critic \<Rightarrow> error + (real \<times> critic)" where
  "critic_iteration inputs c =
     (let c1 = zero_grad c
      in bind_err (critic_loss c1 inputs) (\<lambda>l.
           (let c2 = backward inputs c1;
                c3 = zero_grad c2;
                c4 = optimizer_step c3;
                c5 = scheduler_step c4
            in Inr (l, c5))))"

fun critic_iterations :: "nat \<Rightarrow> tensor list \<Rightarrow> real list \<Rightarrow> critic \<Rightarrow> error + (real list \<times> critic)" where
  "critic_iterations 0 inputs critic_losses c = Inr (critic_losses, c)"
| "critic_iterations (Suc n) inputs critic_losses c =
     bind_err (critic_iteration inputs c) (\<lambda>(l, c').
       critic_iterations n inputs (critic_losses @ [l]) c')"

definition critic_step :: "tensor list \<Rightarrow> critic \<Rightarrow> error + (real option \<times> critic)" where
  "critic_step vgg_output c =
     (let c0 = c\<lparr>train_mode := True, requires_grad := True\<rparr>
      in bind_err (critic_iterations (nat (num_critic_per_gen c0)) vgg_output [] c0)
           (\<lambda>(critic_losses, c'). Inr (np_mean critic_losses, c')))"

text \<open>\<open>get_critic_loss\<close>, given the step counter of the owning process.\<close>

definition get_critic_loss :: "int \<Rightarrow> tensor list \<Rightarrow> critic \<Rightarrow> error + (real \<times> critic)" where
  "get_critic_loss process_step_num vgg_output c =
     (if process_step_num < critic_start_step c then Inr (0, c)
      else
        (let warmup_scaler =
               (if process_step_num < critic_start_step c + warmup_steps c
                then real_of_int (process_step_num - critic_start_step c)
                     / real_of_int (warmup_steps c)
                else 1);
             c1 = c\<lparr>train_mode := False, requires_grad := False\<rparr>
         in bind_err (chunk2 vgg_output) (\<lambda>(vgg_pred, vgg_target).
              (let stacked_output = map (forward c1 (params c1)) vgg_pred
               in Inr ((- mean stacked_output) * warmup_scaler, c1)))))"

text \<open>The critic evaluation: the negated mean score of the prediction half.\<close>

definition critic_evaluation :: "critic \<Rightarrow> tensor list \<Rightarrow> real" where
  "critic_evaluation c vgg_output =
     - mean (map (forward c (params c)) (take ((length vgg_output + 1) div 2) vgg_output))"

section \<open>The autoencoder trainer\<close>

record dataset =
  ds_path :: "string option"
  ds_is_dir :: bool

text \<open>
  The values that \<open>__init__\<close> reads from the job's configuration.
  \<open>v_num_batches\<close> is the length of the data loader built over the datasets and
  \<open>v_has_writer\<close> says whether the job has a metric writer. The \<open>Critic\<close>
  object that \<open>__init__\<close> builds before its checks when \<open>use_critic\<close> is set
  only stores configuration values (its network is created in \<open>setup\<close>) and is
  left out of the process.
\<close>

record vae_config =
  v_job_name :: string
  v_sample_every :: "int option"
  v_sample_sources :: "string list option"
  v_epochs :: "int option"
  v_max_steps :: "int option"
  v_save_every :: "int option"
  v_log_every :: int
  style_weight :: real
  content_weight :: real
  kld_weight :: real
  mse_weight :: real
  tv_weight :: real
  critic_weight :: real
  use_critic :: bool
  v_datasets :: "dataset list"
  v_num_batches :: nat
  v_has_writer :: bool

text \<open>
  What the external numerics deliver at one training step: for each loss term the value
  that the guarded branch of its \<open>get_*_loss\<close> method computes (for style and
  content, the scaled sum over the layer losses that the feature extractor's forward pass
  left behind), and the two values that the critic returns. \<open>critic_g\<close> is
  \<open>None\<close> when \<open>Critic.get_critic_loss\<close> takes its early return, the constant
  \<open>torch.tensor(0.0)\<close>, and holds the value it computes from the critic's forward
  pass otherwise.
\<close>

record step_input =
  raw_style :: real
  raw_content :: real
  raw_mse :: real
  raw_kld :: real
  raw_tv :: real
  critic_d :: real
  critic_g :: "real option"

type_synonym loss_lists = "(string \<times> real list) list"

record vae_process =
  conf :: vae_config
  v_step_num :: int
  v_epoch_num :: int
  max_steps :: "int option"
  epochs :: "int option"
  step_inputs :: "int \<Rightarrow> step_input"
  v_start_step :: int
  epoch_losses :: loss_lists
  log_losses :: loss_lists
  v_meta :: "(int \<times> int) option"
  v_disk :: disk
  v_events :: "event list"

fun check_datasets :: "dataset list \<Rightarrow> error + unit" where
  "check_datasets [] = Inr ()"
| "check_datasets (ds # rest) =
     (case ds_path ds of
        None \<Rightarrow> Inl (ValueError ''dataset must have a path'')
      | Some path \<Rightarrow>
          if \<not> ds_is_dir ds
          then Inl (ValueError (''dataset path does is not a directory: '' @ path))
          else check_datasets rest)"

definition vae_init :: "vae_config \<Rightarrow> (int \<Rightarrow> step_input) \<Rightarrow> disk \<Rightarrow> error + vae_process" where
  "vae_init c xs d =
     (if v_sample_every c \<noteq> None \<and> v_sample_sources c = None
      then Inl (ValueError ''sample_every is specified but sample_sources is not'')
      else if v_epochs c = None \<and> v_max_steps c = None
      then Inl (ValueError ''epochs or max_steps must be specified'')
      else bind_err (check_datasets (v_datasets c)) (\<lambda>_.
             Inr \<lparr>conf = c, v_step_num = 0, v_epoch_num = 0,
                  max_steps = v_max_steps c, epochs = v_epochs c, step_inputs = xs,
                  v_start_step = 0, epoch_losses = [], log_losses = [],
                  v_meta = None, v_disk = makedirs d, v_events = []\<rparr>))"

subsection \<open>Loss composition\<close>

text \<open>
  The computations of one step that bear on the loss terms. \<open>FeaturePass\<close> is the call
  \<open>self.vgg_19(stacked)\<close>: the style and content loss layers sit inside that network,
  so the pass computes every layer's style loss and content loss (\<open>setup_vgg19\<close> reads
  them off after such a pass). The others are the guarded branches of the
  \<open>get_*_loss\<close> methods and the two calls of the critic.
\<close>

datatype computation =
    FeaturePass
  | CriticStep
  | StyleSum
  | ContentSum
  | KldTerm
  | MseTerm
  | TvTerm
  | CriticGen

text \<open>
  What a \<open>get_*_loss\<close> method returns: the scalar, whether the scalar hangs on the
  autograd graph, and the computations that were run for it. Values computed from the
  decoder's prediction hang on the graph (the latents are set to require a gradient); the
  Kullback-Leibler term is computed from the outputs of the encoder, which \<open>load_vae\<close>
  freezes and \<open>run\<close> never unfreezes, so it does not; \<open>torch.tensor(0.0)\<close> is a
  constant.
\<close>

record term_result =
  t_value :: real
  t_attached :: bool
  t_ran :: "computation list"

definition constant_zero :: term_result where
  "constant_zero = \<lparr>t_value = 0, t_attached = False, t_ran = []\<rparr>"

definition get_style_loss :: "vae_config \<Rightarrow> step_input \<Rightarrow> term_result" where
  "get_style_loss c x =
     (if 0 < style_weight c
      then \<lparr>t_value = raw_style x, t_attached = True, t_ran = [StyleSum]\<rparr>
      else constant_zero)"

definition get_content_loss :: "vae_config \<Rightarrow> step_input \<Rightarrow> term_result" where
  "get_content_loss c x =
     (if 0 < content_weight c
      then \<lparr>t_value = raw_content x, t_attached = True, t_ran = [ContentSum]\<rparr>
      else constant_zero)"

definition get_mse_loss :: "vae_config \<Rightarrow> step_input \<Rightarrow> term_result" where
  "get_mse_loss c x =
     (if 0 < mse_weight c
      then \<lparr>t_value = raw_mse x, t_attached = True, t_ran = [MseTerm]\<rparr>
      else constant_zero)"

definition get_kld_loss :: "vae_config \<Rightarrow> step_input \<Rightarrow> term_result" where
  "get_kld_loss c x =
     (if 0 < kld_weight c
      then \<lparr>t_value = raw_kld x, t_attached = False, t_ran = [KldTerm]\<rparr>
      else constant_zero)"

definition get_tv_loss :: "vae_config \<Rightarrow> step_input \<Rightarrow> term_result" where
  "get_tv_loss c x =
     (if 0 < tv_weight c
      then \<lparr>t_value = raw_tv x, t_attached = True, t_ran = [TvTerm]\<rparr>
      else constant_zero)"

text \<open>The guarded call of the feature extractor in the loop body.\<close>

definition feature_pass :: "vae_config \<Rightarrow> computation list" where
  "feature_pass c =
     (if 0 < style_weight c \<or> 0 < content_weight c \<or> use_critic c then [FeaturePass] else [])"

text \<open>
  The loss dictionary of a step, whether the total hangs on the autograd graph (a product
  with a weight and a sum keep what their operands hang on), and the computations that
  were run, in the order of the loop body.
\<close>

record losses =
  l_total :: real
  l_style :: real
  l_content :: real
  l_mse :: real
  l_kl :: real
  l_tv :: real
  l_crD :: real
  l_crG :: real
  l_attached :: bool
  computed :: "computation list"

definition compute_losses :: "vae_config \<Rightarrow> step_input \<Rightarrow> losses" where
  "compute_losses c x =
     (let vgg = feature_pass c;
          critic_d_loss = (if use_critic c then critic_d x else 0);
          style = get_style_loss c x;
          style_loss = t_value style * style_weight c;
          content = get_content_loss c x;
          content_loss = t_value content * content_weight c;
          kld = get_kld_loss c x;
          kld_loss = t_value kld * kld_weight c;
          mse = get_mse_loss c x;
          mse_loss = t_value mse * mse_weight c;
          tv = get_tv_loss c x;
          tv_loss = t_value tv * tv_weight c;
          critic_gen_loss =
            (if use_critic c
             then (case critic_g x of None \<Rightarrow> 0 | Some g \<Rightarrow> g) * critic_weight c
             else 0);
          loss = style_loss + content_loss + kld_loss + mse_loss + tv_loss + critic_gen_loss
      in \<lparr>l_total = loss, l_style = style_loss, l_content = content_loss,
          l_mse = mse_loss, l_kl = kld_loss, l_tv = tv_loss,
          l_crD = critic_d_loss, l_crG = critic_gen_loss,
          l_attached = (t_attached style \<or> t_attached content \<or> t_attached kld
                        \<or> t_attached mse \<or> t_attached tv
                        \<or> (use_critic c \<and> critic_g x \<noteq> None)),
          computed = vgg @ (if use_critic c then [CriticStep] else [])
                     @ t_ran style @ t_ran content @ t_ran kld @ t_ran mse @ t_ran tv
                     @ (if use_critic c then [CriticGen] else [])\<rparr>)"

text \<open>
  The claim's side: which computations work out a loss term, wholly or in part, and
  whether a list of computations computes a term.
\<close>

datatype loss_term = Style | Content | Mse | Kld | Tv

fun touches :: "computation \<Rightarrow> loss_term \<Rightarrow> bool" where
  "touches FeaturePass t = (t = Style \<or> t = Content)"
| "touches StyleSum t = (t = Style)"
| "touches ContentSum t = (t = Content)"
| "touches KldTerm t = (t = Kld)"
| "touches MseTerm t = (t = Mse)"
| "touches TvTerm t = (t = Tv)"
| "touches CriticStep t = False"
| "touches CriticGen t = False"

definition term_computed :: "loss_term \<Rightarrow> computation list \<Rightarrow> bool" where
  "term_computed t cs = list_ex (\<lambda>c. touches c t) cs"

subsection \<open>Accumulators\<close>

definition blank_losses :: loss_lists where
  "blank_losses =
     [(''total'', []), (''style'', []), (''content'', []), (''mse'', []),
      (''kl'', []), (''tv'', []), (''crD'', []), (''crG'', [])]"

definition append_to :: "string \<Rightarrow> real \<Rightarrow> loss_lists \<Rightarrow> loss_lists" where
  "append_to key v acc = map (\<lambda>(k, vs). if k = key then (k, vs @ [v]) else (k, vs)) acc"

definition append_losses :: "losses \<Rightarrow> loss_lists \<Rightarrow> loss_lists" where
  "append_losses l acc =
     (append_to ''crD'' (l_crD l) \<circ> append_to ''crG'' (l_crG l) \<circ> append_to ''tv'' (l_tv l)
      \<circ> append_to ''kl'' (l_kl l) \<circ> append_to ''mse'' (l_mse l)
      \<circ> append_to ''content'' (l_content l) \<circ> append_to ''style'' (l_style l)
      \<circ> append_to ''total'' (l_total l)) acc"

text \<open>\<open>sum(xs) / len(xs)\<close>, which raises on an empty list.\<close>

definition py_avg :: "real list \<Rightarrow> error + real" where
  "py_avg xs = (if xs = [] then Inl ZeroDivisionError else Inr (sum_list xs / real (length xs)))"

text \<open>
  The loop over the keys at a logging step: every key's mean of \<open>log_losses\<close> is
  written under \<open>loss/key\<close>.
\<close>

fun log_scalars :: "loss_lists \<Rightarrow> int \<Rightarrow> error + event list" where
  "log_scalars [] step = Inr []"
| "log_scalars ((key, vs) # rest) step =
     bind_err (py_avg vs) (\<lambda>m.
     bind_err (log_scalars rest step) (\<lambda>es.
       Inr (Scalar (''loss/'' @ key) m step # es)))"

text \<open>
  The loop over the keys at the end of an epoch: for every key of \<open>epoch_losses\<close> the
  mean is taken of the key's list in \<open>log_losses\<close>, and written under
  \<open>epoch loss/key\<close> when it is positive.
\<close>

definition lookup_list :: "loss_lists \<Rightarrow> string \<Rightarrow> real list" where
  "lookup_list acc key = (case map_of acc key of Some vs \<Rightarrow> vs | None \<Rightarrow> [])"

fun epoch_scalars :: "loss_lists \<Rightarrow> loss_lists \<Rightarrow> int \<Rightarrow> error + event list" where
  "epoch_scalars [] logl epoch = Inr []"
| "epoch_scalars ((key, vs) # rest) logl epoch =
     bind_err (py_avg (lookup_list logl key)) (\<lambda>m.
     bind_err (epoch_scalars rest logl epoch) (\<lambda>es.
       Inr ((if 0 < m then [Scalar (''epoch loss/'' @ key) m epoch] else []) @ es)))"

subsection \<open>Sampling and saving\<close>

definition v_emit :: "event list \<Rightarrow> vae_process \<Rightarrow> vae_process" where
  "v_emit es p = p\<lparr>v_events := v_events p @ es\<rparr>"

definition vae_sample :: "int option \<Rightarrow> vae_process \<Rightarrow> error + vae_process" where
  "vae_sample step p =
     (case v_sample_sources (conf p) of
        None \<Rightarrow> Inl TypeError
      | Some srcs \<Rightarrow> Inr (v_emit [Sampled step False] p))"

definition vae_get_training_info :: "vae_process \<Rightarrow> int \<times> int" where
  "vae_get_training_info p = (v_step_num p, v_epoch_num p)"

definition vae_update_training_metadata :: "vae_process \<Rightarrow> vae_process" where
  "vae_update_training_metadata p = p\<lparr>v_meta := Some (vae_get_training_info p)\<rparr>"

definition meta_file :: "string \<Rightarrow> (int \<times> int) option \<Rightarrow> ckpt_file" where
  "meta_file name m =
     \<lparr>fname = name, ctime = 0, payload = [],
      meta_step = map_option fst m, meta_epoch = map_option snd m,
      saved_multiplier = None\<rparr>"

definition critic_save :: "int option \<Rightarrow> vae_process \<Rightarrow> vae_process" where
  "critic_save step p =
     (let p1 = vae_update_training_metadata p;
          save_path = ''CRITIC_'' @ v_job_name (conf p1) @ step_suffix step @ ''.safetensors''
      in p1\<lparr>v_disk := write_file (meta_file save_path (v_meta p1)) (v_disk p1)\<rparr>)"

definition vae_save :: "int option \<Rightarrow> vae_process \<Rightarrow> vae_process" where
  "vae_save step p =
     (let p1 = p\<lparr>v_disk := makedirs (v_disk p)\<rparr>;
          p2 = vae_update_training_metadata p1;
          filename = v_job_name (conf p2) @ step_suffix step @ ''.safetensors'';
          p3 = v_emit [Saved step]
                 (p2\<lparr>v_disk := write_file (meta_file filename (v_meta p2)) (v_disk p2)\<rparr>)
      in if use_critic (conf p3) then critic_save step p3 else p3)"

subsection \<open>The training loop\<close>

text \<open>The block of the loop body under \<open>if self.step_num != start_step\<close>.\<close>

definition vae_periodic :: "vae_process \<Rightarrow> error + vae_process" where
  "vae_periodic p =
     (if v_step_num p \<noteq> v_start_step p then
        bind_err (if interval_due (v_sample_every (conf p)) (v_step_num p)
                  then vae_sample (Some (v_step_num p)) p else Inr p) (\<lambda>p1.
        (let p2 = (if interval_due (v_save_every (conf p1)) (v_step_num p1)
                   then vae_save (Some (v_step_num p1)) p1 else p1)
         in if interval_due (Some (v_log_every (conf p2))) (v_step_num p2) then
              bind_err (if v_has_writer (conf p2)
                        then bind_err (log_scalars (log_losses p2) (v_step_num p2))
                               (\<lambda>es. Inr (v_emit es p2))
                        else Inr p2) (\<lambda>p3.
                Inr (p3\<lparr>log_losses := blank_losses\<rparr>))
            else Inr p2))
      else Inr p)"

text \<open>
  One pass of the body of the loop over the batches, after its \<open>break\<close> test.
  \<open>loss.backward()\<close> raises when the total hangs on nothing, that is when every
  addend is a constant or comes from the frozen encoder.
\<close>

definition vae_step :: "vae_process \<Rightarrow> error + vae_process" where
  "vae_step p =
     (let l = compute_losses (conf p) (step_inputs p (v_step_num p))
      in if \<not> l_attached l then Inl RuntimeError
         else
           (let p1 = v_emit [Trained (v_step_num p)] p;
                p2 = p1\<lparr>epoch_losses := append_losses l (epoch_losses p1),
                        log_losses := append_losses l (log_losses p1)\<rparr>
            in bind_err (vae_periodic p2) (\<lambda>p3. Inr (p3\<lparr>v_step_num := v_step_num p3 + 1\<rparr>))))"

fun vae_batches :: "nat \<Rightarrow> vae_process \<Rightarrow> error + vae_process" where
  "vae_batches 0 p = Inr p"
| "vae_batches (Suc n) p =
     (case max_steps p of
        None \<Rightarrow> Inl TypeError
      | Some m \<Rightarrow>
          if m \<le> v_step_num p then Inr p
          else bind_err (vae_step p) (vae_batches n))"

definition vae_epoch_end :: "int \<Rightarrow> vae_process \<Rightarrow> error + vae_process" where
  "vae_epoch_end epoch p =
     bind_err (if v_has_writer (conf p)
               then bind_err (epoch_scalars (epoch_losses p) (log_losses p) epoch)
                      (\<lambda>es. Inr (v_emit es p))
               else Inr p) (\<lambda>p1.
       Inr (p1\<lparr>epoch_losses := blank_losses\<rparr>))"

fun vae_epochs :: "int list \<Rightarrow> vae_process \<Rightarrow> error + vae_process" where
  "vae_epochs [] p = Inr p"
| "vae_epochs (epoch # rest) p =
     (case max_steps p of
        None \<Rightarrow> Inl TypeError
      | Some m \<Rightarrow>
          if m \<le> v_step_num p then Inr p
          else bind_err (vae_batches (v_num_batches (conf p)) p) (\<lambda>p1.
               bind_err (vae_epoch_end epoch p1) (vae_epochs rest)))"

text \<open>\<open>run\<close> up to the end of the loop over the epochs.\<close>

definition vae_train :: "vae_process \<Rightarrow> error + vae_process" where
  "vae_train p =
     (case max_steps p of
        None \<Rightarrow> Inl TypeError
      | Some ms \<Rightarrow>
          if v_num_batches (conf p) = 0 then Inl ZeroDivisionError
          else
            (let len = int (v_num_batches (conf p));
                 max_step_epochs = ms div len;
                 num_epochs = (case epochs p of
                                 None \<Rightarrow> max_step_epochs
                               | Some e \<Rightarrow> if max_step_epochs < e then max_step_epochs else e);
                 max_epoch_steps = len * num_epochs;
                 num_steps = (if max_epoch_steps < ms then max_epoch_steps else ms);
                 p1 = p\<lparr>max_steps := Some num_steps, epochs := Some num_epochs,
                         v_start_step := v_step_num p\<rparr>;
                 p2 = v_emit [ModelLoaded] p1
             in bind_err (vae_sample None p2) (\<lambda>p3.
                (let p4 = p3\<lparr>epoch_losses := blank_losses, log_losses := blank_losses\<rparr>
                 in vae_epochs [v_epoch_num p4 .. num_epochs - 1] p4))))"

definition vae_run :: "vae_process \<Rightarrow> error + vae_process" where
  "vae_run p = bind_err (vae_train p) (\<lambda>p5. Inr (vae_save None p5))"

definition vae_job :: "vae_config \<Rightarrow> (int \<Rightarrow> step_input) \<Rightarrow> disk \<Rightarrow> error + vae_process" where
  "vae_job c xs d = bind_err (vae_init c xs d) vae_run"

definition trace_of :: "error + vae_process \<Rightarrow> event list option" where
  "trace_of r = (case r of Inl e \<Rightarrow> None | Inr p \<Rightarrow> Some (v_events p))"

definition error_of :: "error + 'a \<Rightarrow> error option" where
  "error_of r = (case r of Inl e \<Rightarrow> Some e | Inr x \<Rightarrow> None)"

subsection \<open>A job of one epoch of four batches, logging every two steps\<close>

definition vae_example_conf :: vae_config where
  "vae_example_conf =
     \<lparr>v_job_name = ''vae'', v_sample_every = None, v_sample_sources = Some [''a.png''],
      v_epochs = Some 1, v_max_steps = Some 4, v_save_every = None, v_log_every = 2,
      style_weight = 0, content_weight = 0, kld_weight = 0, mse_weight = 1, tv_weight = 0,
      critic_weight = 1, use_critic = False,
      v_datasets = [\<lparr>ds_path = Some ''data'', ds_is_dir = True\<rparr>],
      v_num_batches = 4, v_has_writer = True\<rparr>"

definition vae_example_inputs :: "int \<Rightarrow> step_input" where
  "vae_example_inputs k =
     \<lparr>raw_style = 7, raw_content = 7, raw_mse = real_of_int k + 1, raw_kld = 7, raw_tv = 7,
      critic_d = 7, critic_g = Some 7\<rparr>"

definition empty_disk :: disk where
  "empty_disk = \<lparr>root_exists = False, entries = [], clock = 0\<rparr>"

definition vae_example :: vae_process where
  "vae_example =
     \<lparr>conf = vae_example_conf, v_step_num = 0, v_epoch_num = 0,
      max_steps = Some 4, epochs = Some 1, step_inputs = vae_example_inputs,
      v_start_step = 0, epoch_losses = [], log_losses = [],
      v_meta = None, v_disk = \<lparr>root_exists = True, entries = [], clock = 0\<rparr>,
      v_events = []\<rparr>"

text \<open>The same configuration with the content term switched on.\<close>

definition vae_content_conf :: vae_config where
  "vae_content_conf = vae_example_conf\<lparr>content_weight := 1\<rparr>"

text \<open>A state of that job inside the loop, at step 2, with one value accumulated.\<close>

definition vae_logging_state :: vae_process where
  "vae_logging_state =
     vae_example\<lparr>v_step_num := 2, log_losses := [(''total'', [1])]\<rparr>"

text \<open>The same configuration asking for samples without naming sources.\<close>

definition vae_bad_conf :: vae_config where
  "vae_bad_conf = vae_example_conf\<lparr>v_sample_every := Some 5, v_sample_sources := None\<rparr>"

subsection \<open>A critic with one weight, a unit gradient and a plain descent step\<close>

definition critic_example :: critic where
  "critic_example =
     \<lparr>params = [1], grad = None, train_mode = False, requires_grad = False,
      scheduler_steps = 0, num_critic_per_gen = 1, lambda_gp = 10,
      critic_start_step = 10, warmup_steps = 100,
      forward = (\<lambda>w x. sum_list (map2 (*) w x)),
      gradient_penalty = (\<lambda>w target pred. 0),
      loss_gradient = (\<lambda>w batch. [1]),
      optimizer_update = (\<lambda>w g. map2 (-) w g)\<rparr>"

section \<open>Frame lemmas of the diffusion trainer\<close>

lemma events_clean_up [simp]: "events (clean_up_saves p) = events p"
  by (simp add: clean_up_saves_def Let_def)

lemma events_sd_write [simp]: "events (sd_write step p) = events p"
  by (simp add: sd_write_def Let_def sd_update_training_metadata_def split: option.splits)

lemma events_sd_save [simp]: "events (sd_save step p) = events p @ [Saved step]"
  by (simp add: sd_save_def emit_def)

lemma clean_up_frame [simp]:
  "step_num (clean_up_saves p) = step_num p"
  "start_step (clean_up_saves p) = start_step p"
  "log_every (clean_up_saves p) = log_every p"
  "has_writer (clean_up_saves p) = has_writer p"
  "loss_at (clean_up_saves p) = loss_at p"
  "learning_rate (clean_up_saves p) = learning_rate p"
  "network (clean_up_saves p) = network p"
  "job_name (clean_up_saves p) = job_name p"
  "max_step_saves_to_keep (clean_up_saves p) = max_step_saves_to_keep p"
  by (simp_all add: clean_up_saves_def Let_def)

lemma sd_write_frame [simp]:
  "step_num (sd_write step p) = step_num p"
  "start_step (sd_write step p) = start_step p"
  "log_every (sd_write step p) = log_every p"
  "has_writer (sd_write step p) = has_writer p"
  "loss_at (sd_write step p) = loss_at p"
  "learning_rate (sd_write step p) = learning_rate p"
  "job_name (sd_write step p) = job_name p"
  "max_step_saves_to_keep (sd_write step p) = max_step_saves_to_keep p"
  by (simp_all add: sd_write_def Let_def sd_update_training_metadata_def split: option.splits)

lemma sd_save_frame [simp]:
  "step_num (sd_save step p) = step_num p"
  "start_step (sd_save step p) = start_step p"
  "log_every (sd_save step p) = log_every p"
  "has_writer (sd_save step p) = has_writer p"
  "loss_at (sd_save step p) = loss_at p"
  "learning_rate (sd_save step p) = learning_rate p"
  "job_name (sd_save step p) = job_name p"
  "max_step_saves_to_keep (sd_save step p) = max_step_saves_to_keep p"
  by (simp_all add: sd_save_def emit_def)

lemma interval_due_should_fire:
  "(s \<noteq> start \<and> interval_due i s) = should_fire s start i"
  by (cases i) (auto simp: interval_due_def should_fire_def)

section \<open>Pruning\<close>

lemma foldl_os_remove:
  "foldl os_remove d names = d\<lparr>entries := filter (\<lambda>f. fname f \<notin> set names) (entries d)\<rparr>"
proof (induction names arbitrary: d)
  case Nil
  then show ?case by simp
next
  case (Cons n ns)
  have "foldl os_remove d (n # ns) = foldl os_remove (os_remove d n) ns"
    by simp
  also have "\<dots> = (os_remove d n)\<lparr>entries := filter (\<lambda>f. fname f \<notin> set ns) (entries (os_remove d n))\<rparr>"
    by (rule Cons.IH)
  also have "\<dots> = d\<lparr>entries := filter (\<lambda>f. fname f \<notin> set (n # ns)) (entries d)\<rparr>"
    by (simp add: os_remove_def conj_commute)
  finally show ?case .
qed

lemma not_final_intermediate:
  "\<not> glob_match (job @ ''_'') ''.safetensors'' (job @ ''.safetensors'')"
  by (simp add: glob_match_def)

lemma clean_up_disk:
  "sd_disk (clean_up_saves p) =
     (if root_exists (sd_disk p) \<and> max_step_saves_to_keep p < int (length (sd_intermediates (job_name p) (sd_disk p)))
      then (sd_disk p)\<lparr>entries := filter (\<lambda>f. fname f \<notin> fname ` set (pruned (job_name p) (max_step_saves_to_keep p) (sd_disk p))) (entries (sd_disk p))\<rparr>
      else sd_disk p)"
  by (simp add: clean_up_saves_def Let_def foldl_os_remove pruned_def)









section \<open>Saving\<close>

lemma sd_write_disk:
  "sd_disk (sd_write step p) =
     \<lparr>root_exists = True,
      entries = filter (\<lambda>g. fname g \<noteq> fname (written step p)) (entries (sd_disk p)) @ [written step p],
      clock = clock (sd_disk p) + 1\<rparr>"
  by (simp add: sd_write_def Let_def sd_update_training_metadata_def sd_get_training_info_def
      write_file_def makedirs_def written_def split: option.splits)

lemma sd_write_network: "network (sd_write step p) = network p"
  by (simp add: sd_write_def Let_def sd_update_training_metadata_def split: option.splits)

lemma sd_save_disk:
  "sd_disk (sd_save step p) = sd_disk (clean_up_saves (sd_write step p))"
  by (simp add: sd_save_def emit_def clean_up_saves_def Let_def)



lemma pruned_subset: "set (pruned job keep d) \<subseteq> set (sd_intermediates job d)"
  by (auto simp: pruned_def py_slice_to_def dest: in_set_takeD)

lemma clean_up_keeps_others:
  assumes "f \<in> set (entries (sd_disk p))"
    and "\<not> glob_match (job_name p @ ''_'') ''.safetensors'' (fname f)"
  shows "f \<in> set (entries (sd_disk (clean_up_saves p)))"
proof -
  have "fname f \<notin> fname ` set (pruned (job_name p) (max_step_saves_to_keep p) (sd_disk p))"
  proof
    assume "fname f \<in> fname ` set (pruned (job_name p) (max_step_saves_to_keep p) (sd_disk p))"
    then obtain g where g: "g \<in> set (pruned (job_name p) (max_step_saves_to_keep p) (sd_disk p))"
      and eq: "fname f = fname g" by auto
    from g pruned_subset have "g \<in> set (sd_intermediates (job_name p) (sd_disk p))" by blast
    then have "glob_match (job_name p @ ''_'') ''.safetensors'' (fname g)"
      by (simp add: sd_intermediates_def glob_files_def)
    with eq assms(2) show False by simp
  qed
  with assms(1) show ?thesis by (simp add: clean_up_disk)
qed




section \<open>Resuming\<close>







section \<open>Finishing a run\<close>

lemma v_events_vae_save [simp]: "v_events (vae_save step p) = v_events p @ [Saved step]"
  by (simp add: vae_save_def Let_def v_emit_def critic_save_def vae_update_training_metadata_def)

lemma vae_save_frame [simp]:
  "conf (vae_save step p) = conf p"
  "v_step_num (vae_save step p) = v_step_num p"
  "v_start_step (vae_save step p) = v_start_step p"
  "log_losses (vae_save step p) = log_losses p"
  "epoch_losses (vae_save step p) = epoch_losses p"
  "max_steps (vae_save step p) = max_steps p"
  by (simp_all add: vae_save_def Let_def v_emit_def critic_save_def vae_update_training_metadata_def)

lemma log_scalars_ok:
  "\<forall>kv \<in> set acc. snd kv \<noteq> [] \<Longrightarrow> \<exists>es. log_scalars acc s = Inr es"
  by (induction acc s rule: log_scalars.induct) (auto simp: bind_err_def py_avg_def)

lemma events_sd_finish:
  "events (sd_finish p) = events p @ [Sampled (Some (step_num p + 1)) False, Saved None, Released]"
  by (simp add: sd_finish_def Let_def sd_sample_def emit_def)

lemma final_sample_then_save_tail:
  "final_sample_then_save (pre @ [Sampled s b, Saved None, Released])"
  by (simp add: final_sample_then_save_def)

lemma step_num_loop_body: "step_num (sd_loop_body p k) = k"
  by (simp add: sd_loop_body_def)

lemma step_num_train_loop:
  assumes "step_num q < steps q"
  shows "step_num (sd_train_loop q) = steps q - 1"
proof -
  have "[step_num q .. steps q - 1] = [step_num q .. steps q - 1 - 1] @ [steps q - 1]"
    using assms by (intro upto_rec2) simp
  then show ?thesis
    by (simp add: sd_train_loop_def step_num_loop_body)
qed

lemma vae_run_tail:
  "vae_run p = Inr p' \<Longrightarrow> \<exists>p5. vae_train p = Inr p5 \<and> v_events p' = v_events p5 @ [Saved None]"
  by (auto simp: vae_run_def bind_err_def split: sum.splits)

lemma final_saved:
  "job_name q @ ''.safetensors'' \<in> fname ` set (entries (sd_disk (sd_finish q)))"
proof -
  let ?q1 = "sd_sample (Some (step_num q + 1)) False q"
  let ?w = "sd_write None ?q1"
  have jn: "job_name ?q1 = job_name q" by (simp add: sd_sample_def emit_def)
  have "written None ?q1 \<in> set (entries (sd_disk ?w))" by (simp add: sd_write_disk)
  moreover have "\<not> glob_match (job_name ?w @ ''_'') ''.safetensors'' (fname (written None ?q1))"
    by (simp add: written_def step_suffix_def jn not_final_intermediate)
  ultimately have "written None ?q1 \<in> set (entries (sd_disk (clean_up_saves ?w)))"
    by (rule clean_up_keeps_others)
  then have "fname (written None ?q1) \<in> fname ` set (entries (sd_disk (sd_finish q)))"
    by (simp add: sd_finish_def Let_def emit_def sd_save_disk)
  then show ?thesis by (simp add: written_def step_suffix_def jn)
qed

section \<open>The critic never moves its parameters\<close>

text \<open>
  Every inner iteration clears the gradient between \<open>backward\<close> and the optimiser
  step, so the optimiser finds no gradient and leaves the parameters where they are.
\<close>

lemma critic_iteration_params:
  "critic_iteration inputs c = Inr (l, c') \<Longrightarrow> params c' = params c"
  by (auto simp: critic_iteration_def Let_def bind_err_def zero_grad_def backward_def
      optimizer_step_def scheduler_step_def split: sum.splits)

lemma critic_iterations_params:
  "critic_iterations n inputs ls c = Inr (ls', c') \<Longrightarrow> params c' = params c"
proof (induction n arbitrary: ls c)
  case 0
  then show ?case by simp
next
  case (Suc n)
  then show ?case
    by (auto simp: bind_err_def split: sum.splits prod.splits dest!: critic_iteration_params)
qed

lemma critic_step_params:
  "critic_step vgg_output c = Inr (l, c') \<Longrightarrow> params c' = params c"
  by (auto simp: critic_step_def Let_def bind_err_def split: sum.splits prod.splits
      dest!: critic_iterations_params)

section \<open>The autoencoder trainer prunes nothing\<close>


section \<open>Properties of the training loop\<close>




text \<open>
  C2. In both trainers the periodic block samples, saves and logs at a step exactly when
  \<open>should_fire\<close> holds of the step, the start step and the action's interval: the
  interval is neither \<open>None\<close> nor zero, the step differs from the start step, and
  the step is a multiple of the interval. Logging writes scalars only when the job has a
  writer. The autoencoder trainer's block is stated for the states its loop reaches:
  sample sources are present and every accumulated list is non-empty.
\<close>

theorem periodic_actions_fire_iff:
  "events (sd_periodic k p) = events p
     @ (if should_fire (step_num p) (start_step p) (sample_every p)
        then [Sampled (Some (step_num p)) False] else [])
     @ (if should_fire (step_num p) (start_step p) (save_every p)
        then [Saved (Some (step_num p))] else [])
     @ (if should_fire (step_num p) (start_step p) (log_every p) \<and> has_writer p
        then map (\<lambda>(key, v). Scalar key v (step_num p)) (loss_at p k)
             @ [Scalar ''lr'' (learning_rate p) (step_num p)]
        else [])
   \<and> (v_sample_sources (conf vp) \<noteq> None \<and> (\<forall>kv \<in> set (log_losses vp). snd kv \<noteq> []) \<longrightarrow>
        (\<exists>vp'. vae_periodic vp = Inr vp' \<and> v_events vp' = v_events vp
           @ (if should_fire (v_step_num vp) (v_start_step vp) (v_sample_every (conf vp))
              then [Sampled (Some (v_step_num vp)) False] else [])
           @ (if should_fire (v_step_num vp) (v_start_step vp) (v_save_every (conf vp))
              then [Saved (Some (v_step_num vp))] else [])
           @ (if should_fire (v_step_num vp) (v_start_step vp) (Some (v_log_every (conf vp)))
                 \<and> v_has_writer (conf vp)
              then (case log_scalars (log_losses vp) (v_step_num vp) of
                      Inr es \<Rightarrow> es | Inl e \<Rightarrow> [])
              else [])))"
proof (intro conjI impI)
  show "events (sd_periodic k p) = events p
     @ (if should_fire (step_num p) (start_step p) (sample_every p)
        then [Sampled (Some (step_num p)) False] else [])
     @ (if should_fire (step_num p) (start_step p) (save_every p)
        then [Saved (Some (step_num p))] else [])
     @ (if should_fire (step_num p) (start_step p) (log_every p) \<and> has_writer p
        then map (\<lambda>(key, v). Scalar key v (step_num p)) (loss_at p k)
             @ [Scalar ''lr'' (learning_rate p) (step_num p)]
        else [])"
  proof (cases "step_num p = start_step p")
    case True
    then show ?thesis by (simp add: sd_periodic_def should_fire_def)
  next
    case False
    then have sf: "\<And>i. should_fire (step_num p) (start_step p) i = interval_due i (step_num p)"
      using interval_due_should_fire [of "step_num p" "start_step p"] by simp
    show ?thesis using False
      by (simp add: sd_periodic_def Let_def sf sd_sample_def emit_def)
  qed
next
  assume h: "v_sample_sources (conf vp) \<noteq> None \<and> (\<forall>kv \<in> set (log_losses vp). snd kv \<noteq> [])"
  then obtain srcs where s: "v_sample_sources (conf vp) = Some srcs" by auto
  from h log_scalars_ok obtain es where es: "log_scalars (log_losses vp) (v_step_num vp) = Inr es"
    by blast
  show "\<exists>vp'. vae_periodic vp = Inr vp' \<and> v_events vp' = v_events vp
           @ (if should_fire (v_step_num vp) (v_start_step vp) (v_sample_every (conf vp))
              then [Sampled (Some (v_step_num vp)) False] else [])
           @ (if should_fire (v_step_num vp) (v_start_step vp) (v_save_every (conf vp))
              then [Saved (Some (v_step_num vp))] else [])
           @ (if should_fire (v_step_num vp) (v_start_step vp) (Some (v_log_every (conf vp)))
                 \<and> v_has_writer (conf vp)
              then (case log_scalars (log_losses vp) (v_step_num vp) of
                      Inr es \<Rightarrow> es | Inl e \<Rightarrow> [])
              else [])"
  proof (cases "v_step_num vp = v_start_step vp")
    case True
    then show ?thesis by (simp add: vae_periodic_def should_fire_def)
  next
    case False
    then have sf: "\<And>i. should_fire (v_step_num vp) (v_start_step vp) i = interval_due i (v_step_num vp)"
      using interval_due_should_fire [of "v_step_num vp" "v_start_step vp"] by simp
    show ?thesis using False
      by (simp add: vae_periodic_def Let_def sf vae_sample_def s es v_emit_def bind_err_def)
  qed
qed

theorem periodic_actions_fire_iff_witness:
  "v_sample_sources (conf vae_logging_state) = Some [''a.png'']
   \<and> log_losses vae_logging_state = [(''total'', [1])]
   \<and> events (sd_periodic 300 sd_example)
       = [Sampled (Some 300) False, Saved (Some 300), Scalar ''loss'' 1 300, Scalar ''lr'' 1 300]
   \<and> (\<exists>vp'. vae_periodic vae_logging_state = Inr vp'
         \<and> v_events vp' = [Scalar ''loss/total'' 1 2])"
proof -
  have h: "v_sample_sources (conf vae_logging_state) \<noteq> None
           \<and> (\<forall>kv \<in> set (log_losses vae_logging_state). snd kv \<noteq> [])"
    by (simp add: vae_logging_state_def vae_example_def vae_example_conf_def)
  have sd: "should_fire 300 (start_step sd_example) (sample_every sd_example)"
    "should_fire 300 (start_step sd_example) (save_every sd_example)"
    "should_fire 300 (start_step sd_example) (log_every sd_example)"
    "has_writer sd_example" "events sd_example = []" "step_num sd_example = 300"
    "loss_at sd_example 300 = [(''loss'', 1)]" "learning_rate sd_example = 1"
    by (simp_all add: sd_example_def should_fire_def)
  have v: "\<not> should_fire (v_step_num vae_logging_state) (v_start_step vae_logging_state)
               (v_sample_every (conf vae_logging_state))"
    "\<not> should_fire (v_step_num vae_logging_state) (v_start_step vae_logging_state)
               (v_save_every (conf vae_logging_state))"
    "should_fire (v_step_num vae_logging_state) (v_start_step vae_logging_state)
               (Some (v_log_every (conf vae_logging_state)))"
    "v_has_writer (conf vae_logging_state)" "v_events vae_logging_state = []"
    "log_scalars (log_losses vae_logging_state) (v_step_num vae_logging_state)
       = Inr [Scalar ''loss/total'' 1 2]"
    by (simp_all add: vae_logging_state_def vae_example_def vae_example_conf_def should_fire_def
        bind_err_def py_avg_def)
  have g: "v_sample_sources (conf vae_logging_state) = Some [''a.png'']"
    "log_losses vae_logging_state = [(''total'', [1])]"
    by (simp_all add: vae_logging_state_def vae_example_def vae_example_conf_def)
  from periodic_actions_fire_iff [of 300 sd_example vae_logging_state] h
  have "events (sd_periodic 300 sd_example)
       = [Sampled (Some 300) False, Saved (Some 300), Scalar ''loss'' 1 300, Scalar ''lr'' 1 300]
   \<and> (\<exists>vp'. vae_periodic vae_logging_state = Inr vp'
         \<and> v_events vp' = [Scalar ''loss/total'' 1 2])"
    by (simp add: sd v)
  with g show ?thesis by blast
qed




text \<open>
  C4. \<open>get_critic_loss\<close> returns 0 below the critic's start step; from the start
  step until \<open>warmup_steps\<close> later it returns the critic evaluation (the negated mean
  score of the prediction half) times \<open>(step - start_step) / warmup_steps\<close>; from then
  on it returns the critic evaluation unscaled. The stacked batch has at least two rows, as
  the caller builds it, and \<open>warmup_steps\<close> is not negative.
\<close>

theorem critic_warmup:
  "(process_step_num < critic_start_step c \<longrightarrow>
      get_critic_loss process_step_num vgg_output c = Inr (0, c))
   \<and> (critic_start_step c \<le> process_step_num
      \<and> process_step_num < critic_start_step c + warmup_steps c
      \<and> 2 \<le> length vgg_output \<longrightarrow>
      map_sum id fst (get_critic_loss process_step_num vgg_output c) =
        Inr (critic_evaluation c vgg_output
             * (real_of_int (process_step_num - critic_start_step c)
                / real_of_int (warmup_steps c))))
   \<and> (critic_start_step c + warmup_steps c \<le> process_step_num
      \<and> 0 \<le> warmup_steps c
      \<and> 2 \<le> length vgg_output \<longrightarrow>
      map_sum id fst (get_critic_loss process_step_num vgg_output c) =
        Inr (critic_evaluation c vgg_output))"
  by (simp add: get_critic_loss_def critic_evaluation_def chunk2_def bind_err_def Let_def)

theorem critic_warmup_witness:
  "map_sum id fst (get_critic_loss 5 [[1], [2]] critic_example) = Inr 0
   \<and> critic_evaluation critic_example [[1], [2]] = - 1
   \<and> map_sum id fst (get_critic_loss 60 [[1], [2]] critic_example) = Inr (- (1 / 2))
   \<and> map_sum id fst (get_critic_loss 200 [[1], [2]] critic_example) = Inr (- 1)"
proof -
  have v: "critic_start_step critic_example = 10" "warmup_steps critic_example = 100"
    "length [[1], [2::real]] = 2"
    by (simp_all add: critic_example_def)
  have e: "critic_evaluation critic_example [[1], [2]] = - 1"
    by (simp add: critic_evaluation_def critic_example_def mean_def)
  from critic_warmup [of 5 critic_example "[[1], [2]]"]
  have a: "map_sum id fst (get_critic_loss 5 [[1], [2]] critic_example) = Inr 0"
    by (simp add: v)
  from critic_warmup [of 60 critic_example "[[1], [2]]"]
  have b: "map_sum id fst (get_critic_loss 60 [[1], [2]] critic_example) = Inr (- (1 / 2))"
    by (simp add: v e)
  from critic_warmup [of 200 critic_example "[[1], [2]]"]
  have c: "map_sum id fst (get_critic_loss 200 [[1], [2]] critic_example) = Inr (- 1)"
    by (simp add: v e)
  from a e b c show ?thesis by blast
qed

text \<open>
  C5, as the sources have it. A loss term whose weight is 0 contributes exactly 0; for the
  mse, kld and tv terms nothing of the term is computed then, and for the style and content
  terms the scaled sum is not formed, but the layer losses of the term are still computed
  by the feature extractor's pass, which runs whenever the style weight or the content
  weight is positive or a critic is in use. A term whose weight is positive contributes the
  value its computation yields times the weight. The total is the sum over the terms of
  term times weight (a term that is not enabled being 0) plus the critic's generator term
  (0 without a critic) times the critic weight.
\<close>

theorem loss_composition:
  "(mse_weight c = 0 \<longrightarrow>
      l_mse (compute_losses c x) = 0 \<and> \<not> term_computed Mse (computed (compute_losses c x)))
   \<and> (kld_weight c = 0 \<longrightarrow>
      l_kl (compute_losses c x) = 0 \<and> \<not> term_computed Kld (computed (compute_losses c x)))
   \<and> (tv_weight c = 0 \<longrightarrow>
      l_tv (compute_losses c x) = 0 \<and> \<not> term_computed Tv (computed (compute_losses c x)))
   \<and> (style_weight c = 0 \<longrightarrow>
      l_style (compute_losses c x) = 0 \<and> StyleSum \<notin> set (computed (compute_losses c x))
      \<and> term_computed Style (computed (compute_losses c x))
          = (0 < content_weight c \<or> use_critic c))
   \<and> (content_weight c = 0 \<longrightarrow>
      l_content (compute_losses c x) = 0 \<and> ContentSum \<notin> set (computed (compute_losses c x))
      \<and> term_computed Content (computed (compute_losses c x))
          = (0 < style_weight c \<or> use_critic c))
   \<and> (0 < style_weight c \<longrightarrow>
      l_style (compute_losses c x) = raw_style x * style_weight c
      \<and> StyleSum \<in> set (computed (compute_losses c x)))
   \<and> (0 < content_weight c \<longrightarrow>
      l_content (compute_losses c x) = raw_content x * content_weight c
      \<and> ContentSum \<in> set (computed (compute_losses c x)))
   \<and> (0 < mse_weight c \<longrightarrow>
      l_mse (compute_losses c x) = raw_mse x * mse_weight c
      \<and> MseTerm \<in> set (computed (compute_losses c x)))
   \<and> (0 < kld_weight c \<longrightarrow>
      l_kl (compute_losses c x) = raw_kld x * kld_weight c
      \<and> KldTerm \<in> set (computed (compute_losses c x)))
   \<and> (0 < tv_weight c \<longrightarrow>
      l_tv (compute_losses c x) = raw_tv x * tv_weight c
      \<and> TvTerm \<in> set (computed (compute_losses c x)))
   \<and> l_total (compute_losses c x) =
        (if 0 < style_weight c then raw_style x else 0) * style_weight c
        + (if 0 < content_weight c then raw_content x else 0) * content_weight c
        + (if 0 < kld_weight c then raw_kld x else 0) * kld_weight c
        + (if 0 < mse_weight c then raw_mse x else 0) * mse_weight c
        + (if 0 < tv_weight c then raw_tv x else 0) * tv_weight c
        + (if use_critic c then (case critic_g x of None \<Rightarrow> 0 | Some g \<Rightarrow> g) else 0)
          * critic_weight c"
  by (simp add: compute_losses_def Let_def get_style_loss_def get_content_loss_def
      get_mse_loss_def get_kld_loss_def get_tv_loss_def constant_zero_def feature_pass_def
      term_computed_def)

theorem loss_composition_witness:
  "style_weight vae_content_conf = 0 \<and> kld_weight vae_content_conf = 0
   \<and> content_weight vae_content_conf = 1 \<and> mse_weight vae_content_conf = 1
   \<and> l_style (compute_losses vae_content_conf (vae_example_inputs 2)) = 0
   \<and> StyleSum \<notin> set (computed (compute_losses vae_content_conf (vae_example_inputs 2)))
   \<and> \<not> term_computed Kld (computed (compute_losses vae_content_conf (vae_example_inputs 2)))
   \<and> l_content (compute_losses vae_content_conf (vae_example_inputs 2)) = 7
   \<and> l_mse (compute_losses vae_content_conf (vae_example_inputs 2)) = 3
   \<and> l_total (compute_losses vae_content_conf (vae_example_inputs 2)) = 10"
proof -
  have w: "style_weight vae_content_conf = 0" "kld_weight vae_content_conf = 0"
    "content_weight vae_content_conf = 1" "mse_weight vae_content_conf = 1"
    "tv_weight vae_content_conf = 0" "\<not> use_critic vae_content_conf"
    by (simp_all add: vae_content_conf_def vae_example_conf_def)
  have r: "raw_content (vae_example_inputs 2) = 7" "raw_mse (vae_example_inputs 2) = 3"
    by (simp_all add: vae_example_inputs_def)
  note t = loss_composition [of vae_content_conf "vae_example_inputs 2"]
  from t w have a: "l_style (compute_losses vae_content_conf (vae_example_inputs 2)) = 0"
    and b: "StyleSum \<notin> set (computed (compute_losses vae_content_conf (vae_example_inputs 2)))"
    and c: "\<not> term_computed Kld (computed (compute_losses vae_content_conf (vae_example_inputs 2)))"
    by blast+
  from t have d: "l_content (compute_losses vae_content_conf (vae_example_inputs 2)) = 7"
    and e: "l_mse (compute_losses vae_content_conf (vae_example_inputs 2)) = 3"
    and f: "l_total (compute_losses vae_content_conf (vae_example_inputs 2)) = 10"
    by (simp_all add: w r)
  from w a b c d e f show ?thesis by blast
qed

text \<open>
  The claim as worded, that nothing of a term with weight 0 is computed, fails for the
  style term: with the content term switched on the feature extractor's pass runs and
  computes the style layer losses.
\<close>

theorem style_layers_counterexample:
  "style_weight vae_content_conf = 0
   \<and> term_computed Style (computed (compute_losses vae_content_conf (vae_example_inputs 2)))"
  by code_simp

text \<open>
  C6, at a failing input. One inner iteration on the batch \<open>[[1], [2]]\<close> returns
  the loss \<open>-(2 - 1) + 10 * 0 = -1\<close> and leaves the parameters at \<open>[1]\<close>
  with no gradient, although the gradient of the loss is \<open>[1]\<close> and the optimiser's
  rule applied to it gives \<open>[0]\<close>.
\<close>

theorem critic_update_ignores_gradient:
  "map_sum id (\<lambda>(l, c'). (l, params c', grad c')) (critic_step [[1], [2]] critic_example)
     = Inr (Some (- 1), [1], None)
   \<and> loss_gradient critic_example (params critic_example) [[1], [2]] = [1]
   \<and> optimizer_update critic_example (params critic_example)
        (loss_gradient critic_example (params critic_example) [[1], [2]]) = [0]"
  by code_simp

text \<open>
  C7, at a failing input. One epoch of four steps with total losses 1, 2, 3, 4 and a
  log every two steps: the log at step 2 empties the interval accumulator, and the end of
  the epoch writes 4, the mean of what the interval accumulator holds since, under
  \<open>epoch loss/total\<close>; the mean over the epoch is 5/2.
\<close>

theorem epoch_mean_uses_interval_window:
  "trace_of (vae_job vae_example_conf vae_example_inputs empty_disk) = Some
     [ModelLoaded, Sampled None False, Trained 0, Trained 1, Trained 2,
      Scalar ''loss/total'' 2 2, Scalar ''loss/style'' 0 2,
      Scalar ''loss/content'' 0 2, Scalar ''loss/mse'' 2 2,
      Scalar ''loss/kl'' 0 2, Scalar ''loss/tv'' 0 2, Scalar ''loss/crD'' 0 2,
      Scalar ''loss/crG'' 0 2, Trained 3, Scalar ''epoch loss/total'' 4 0,
      Scalar ''epoch loss/mse'' 4 0, Saved None]
   \<and> map (\<lambda>k. l_total (compute_losses vae_example_conf (vae_example_inputs k))) [0, 1, 2, 3]
       = [1, 2, 3, 4]
   \<and> mean [1, 2, 3, 4] = 5 / 2"
  by code_simp

text \<open>
  C8, as the sources have it. After its loop the diffusion trainer samples once at
  \<open>step_num + 1\<close> (the configured number of steps when the loop ran), saves the
  unsuffixed checkpoint whatever the intervals are, and releases its resources. The
  autoencoder trainer's run, when it returns, ends with the unsuffixed save alone.
\<close>

theorem finalisation:
  "events (sd_run p) =
     events (sd_train_loop (sd_prepare p))
       @ [Sampled (Some (step_num (sd_train_loop (sd_prepare p)) + 1)) False, Saved None, Released]
   \<and> final_sample_then_save (events (sd_run p))
   \<and> job_name (sd_train_loop (sd_prepare p)) @ ''.safetensors''
       \<in> fname ` set (entries (sd_disk (sd_run p)))
   \<and> (step_num (sd_prepare p) < steps (sd_prepare p) \<longrightarrow>
        step_num (sd_train_loop (sd_prepare p)) + 1 = steps (sd_prepare p))
   \<and> (\<forall>vp'. vae_run vp = Inr vp' \<longrightarrow>
        (\<exists>vp5. vae_train vp = Inr vp5 \<and> v_events vp' = v_events vp5 @ [Saved None]))"
  using step_num_train_loop [of "sd_prepare p"] final_saved [of "sd_train_loop (sd_prepare p)"]
  by (auto simp: sd_run_def events_sd_finish final_sample_then_save_tail dest: vae_run_tail)

theorem finalisation_witness:
  "step_num (sd_prepare sd_ten_steps) < steps (sd_prepare sd_ten_steps)
   \<and> steps (sd_prepare sd_ten_steps) = 10
   \<and> step_num (sd_train_loop (sd_prepare sd_ten_steps)) + 1 = 10
   \<and> events (sd_run sd_ten_steps) =
       [ModelLoaded, Sampled (Some 0) False, Trained 0, Trained 1, Trained 2,
        Trained 3, Trained 4, Trained 5, Trained 6, Saved (Some 5), Trained 7,
        Trained 8, Trained 9, Sampled (Some 10) False, Saved None, Released]
   \<and> (\<exists>vp'. vae_run vae_example = Inr vp' \<and> last (v_events vp') = Saved None)"
proof -
  note t = finalisation [of sd_ten_steps vae_example]
  have h: "step_num (sd_prepare sd_ten_steps) < steps (sd_prepare sd_ten_steps)"
    by code_simp
  have s: "steps (sd_prepare sd_ten_steps) = 10" by code_simp
  from t h s have a: "step_num (sd_train_loop (sd_prepare sd_ten_steps)) + 1 = 10" by simp
  have pre: "events (sd_train_loop (sd_prepare sd_ten_steps)) =
       [ModelLoaded, Sampled (Some 0) False, Trained 0, Trained 1, Trained 2,
        Trained 3, Trained 4, Trained 5, Trained 6, Saved (Some 5), Trained 7,
        Trained 8, Trained 9]" by code_simp
  from t a pre have b: "events (sd_run sd_ten_steps) =
       [ModelLoaded, Sampled (Some 0) False, Trained 0, Trained 1, Trained 2,
        Trained 3, Trained 4, Trained 5, Trained 6, Saved (Some 5), Trained 7,
        Trained 8, Trained 9, Sampled (Some 10) False, Saved None, Released]" by simp
  have "trace_of (vae_run vae_example) \<noteq> None" by code_simp
  then have c: "\<exists>vp'. vae_run vae_example = Inr vp'"
    by (cases "vae_run vae_example") (simp_all add: trace_of_def)
  from t have d: "\<forall>vp'. vae_run vae_example = Inr vp' \<longrightarrow> last (v_events vp') = Saved None"
    by auto
  from c d have e: "\<exists>vp'. vae_run vae_example = Inr vp' \<and> last (v_events vp') = Saved None"
    by blast
  from h s a b e show ?thesis by blast
qed

text \<open>
  The claim as worded fails for the autoencoder trainer: its trace does not end with a
  sample pass before the final save.
\<close>

theorem final_sample_counterexample:
  "trace_of (vae_job vae_example_conf vae_example_inputs empty_disk) \<noteq> None
   \<and> \<not> final_sample_then_save
         (the (trace_of (vae_job vae_example_conf vae_example_inputs empty_disk)))"
  by code_simp

text \<open>
  C9. A configuration of the autoencoder trainer that asks for sampling without sample
  sources, or that gives neither epochs nor steps, makes the constructor raise a
  \<open>ValueError\<close>; no process exists, so nothing is loaded and no step runs.
\<close>

theorem configuration_errors:
  "(v_sample_every c \<noteq> None \<and> v_sample_sources c = None)
     \<or> (v_epochs c = None \<and> v_max_steps c = None)
   \<Longrightarrow> \<exists>msg. vae_init c xs d = Inl (ValueError msg) \<and> vae_job c xs d = Inl (ValueError msg)"
  by (auto simp: vae_init_def vae_job_def bind_err_def)

theorem configuration_errors_witness:
  "v_sample_every vae_bad_conf \<noteq> None \<and> v_sample_sources vae_bad_conf = None
   \<and> error_of (vae_job vae_bad_conf vae_example_inputs empty_disk)
       = Some (ValueError ''sample_every is specified but sample_sources is not'')
   \<and> trace_of (vae_job vae_bad_conf vae_example_inputs empty_disk) = None"
proof -
  have h: "v_sample_every vae_bad_conf \<noteq> None \<and> v_sample_sources vae_bad_conf = None"
    by (simp add: vae_bad_conf_def)
  then have "(v_sample_every vae_bad_conf \<noteq> None \<and> v_sample_sources vae_bad_conf = None)
     \<or> (v_epochs vae_bad_conf = None \<and> v_max_steps vae_bad_conf = None)" by blast
  from configuration_errors [OF this, of vae_example_inputs empty_disk]
  obtain msg where m: "vae_init vae_bad_conf vae_example_inputs empty_disk = Inl (ValueError msg)"
    "vae_job vae_bad_conf vae_example_inputs empty_disk = Inl (ValueError msg)" by blast
  have "vae_init vae_bad_conf vae_example_inputs empty_disk
          = Inl (ValueError ''sample_every is specified but sample_sources is not'')"
    by (simp add: vae_init_def vae_bad_conf_def)
  with m have "vae_job vae_bad_conf vae_example_inputs empty_disk
          = Inl (ValueError ''sample_every is specified but sample_sources is not'')" by simp
  with h show ?thesis by (simp add: error_of_def trace_of_def)
qed

text \<open>
  C10. With an adapter present, the multiplier after \<open>save\<close> is the multiplier
  before it, and the file was serialised under the multiplier 1.
\<close>

theorem save_restores_multiplier:
  "network p = Some n \<Longrightarrow>
     map_option multiplier (network (sd_save step p)) = Some (multiplier n)
     \<and> (\<exists>f \<in> set (entries (sd_disk (sd_write step p))).
          fname f = job_name p @ step_suffix step @ ''.safetensors''
          \<and> saved_multiplier f = Some 1)"
  by (simp add: sd_save_def emit_def sd_write_network sd_write_disk written_def)

theorem save_restores_multiplier_witness:
  "network sd_example = Some \<lparr>multiplier = 1 / 2, weights = [1, 2]\<rparr>
   \<and> map_option multiplier (network (sd_save (Some 300) sd_example)) = Some (1 / 2)"
proof -
  have n: "network sd_example = Some \<lparr>multiplier = 1 / 2, weights = [1, 2]\<rparr>"
    by (simp add: sd_example_def)
  from save_restores_multiplier [OF n, of "Some 300"] n show ?thesis by simp
qed

end
